theory Spec2Isabelle
  imports Complex_Main "HOL-Library.Multiset"
begin

section \<open>Genotype records (utils/genomeParser.ts)\<close>

text \<open>
  A JavaScript string is modelled as a \<^typ>\<open>string\<close>: one \<^typ>\<open>char\<close> per code unit,
  which covers the code units 0 to 255. \<open>s.length\<close> is \<^const>\<open>length\<close>, a string is
  falsy exactly when it is empty, and \<open>s.split('')\<close> is the list of its code units.

  The field \<open>position\<close> is a JavaScript number produced by \<open>parseInt(positionStr, 10)\<close>:
  an integer, or \<open>NaN\<close> when the column does not start with a number.
\<close>

datatype coordinate = Coord int | NaN

record GenotypeEntry =
  rsid :: string
  chromosome :: string
  position :: coordinate
  father :: string
  son1 :: string
  son2 :: string
  mother :: string

text \<open>The parser's \<open>clean\<close>, applied to each of the four genotype columns before an
  entry is built: the no-call tokens become the empty string, so that no genotype of a
  parsed entry is \<open>--\<close>.\<close>

definition clean :: "string \<Rightarrow> string" where
  "clean g = (if g = ''--'' \<or> g = ''__'' then [] else g)"

section \<open>The autosomal filter (utils/analysis.ts, lines 157-160 and 243-246)\<close>

text \<open>
  \<open>parseInt(string)\<close> with no radix, after ECMAScript: strip leading white space, read
  an optional sign, switch to radix 16 on a \<open>0x\<close>/\<open>0X\<close> prefix, take the longest run of
  digits of the radix, and return \<open>NaN\<close> (here \<open>None\<close>) when that run is empty.
\<close>

definition isWhiteSpace :: "char \<Rightarrow> bool" where
  "isWhiteSpace c = (of_char c \<in> {9, 10, 11, 12, 13, 32, 160 :: nat})"

definition digitValue :: "char \<Rightarrow> nat option" where
  "digitValue c =
     (let n = (of_char c :: nat) in
      if 48 \<le> n \<and> n \<le> 57 then Some (n - 48)
      else if 97 \<le> n \<and> n \<le> 122 then Some (n - 87)
      else if 65 \<le> n \<and> n \<le> 90 then Some (n - 55)
      else None)"

definition isRadixDigit :: "nat \<Rightarrow> char \<Rightarrow> bool" where
  "isRadixDigit R c = (case digitValue c of None \<Rightarrow> False | Some v \<Rightarrow> v < R)"

definition digitsValue :: "nat \<Rightarrow> string \<Rightarrow> nat" where
  "digitsValue R Z =
     foldl (\<lambda>acc c. acc * R + (case digitValue c of None \<Rightarrow> 0 | Some v \<Rightarrow> v)) 0 Z"

definition stripSign :: "string \<Rightarrow> string" where
  "stripSign S =
     (case S of [] \<Rightarrow> [] | c # r \<Rightarrow> if c = CHR ''+'' \<or> c = CHR ''-'' then r else S)"

definition hexPrefix :: "string \<Rightarrow> bool" where
  "hexPrefix S =
     (case S of a # b # _ \<Rightarrow> a = CHR ''0'' \<and> (b = CHR ''x'' \<or> b = CHR ''X'') | _ \<Rightarrow> False)"

definition parseInt :: "string \<Rightarrow> int option" where
  "parseInt inputString =
     (let S = dropWhile isWhiteSpace inputString;
          sign = (case S of [] \<Rightarrow> 1 | c # _ \<Rightarrow> if c = CHR ''-'' then - 1 else (1 :: int));
          S1 = stripSign S;
          R = (if hexPrefix S1 then 16 else 10);
          S2 = (if hexPrefix S1 then drop 2 S1 else S1);
          Z = takeWhile (isRadixDigit R) S2
      in if Z = [] then None else Some (sign * int (digitsValue R Z)))"

text \<open>The filter predicate of both autosomal analyses:
  \<open>!['X', 'Y', 'MT'].includes(e.chromosome) && !isNaN(parseInt(e.chromosome))\<close>.\<close>

definition autosomalLabel :: "string \<Rightarrow> bool" where
  "autosomalLabel c = (c \<notin> set [''X'', ''Y'', ''MT''] \<and> parseInt c \<noteq> None)"

definition autosomal :: "GenotypeEntry list \<Rightarrow> GenotypeEntry list" where
  "autosomal entries = filter (\<lambda>e. autosomalLabel (chromosome e)) entries"

section \<open>Mendelian consistency (utils/analysis.ts, lines 151-213)\<close>

text \<open>Reading a JavaScript array at an index gives \<open>undefined\<close> (here \<open>None\<close>) out of
  range; an array of code units never includes \<open>undefined\<close>.\<close>

definition arrayAt :: "'a list \<Rightarrow> nat \<Rightarrow> 'a option" where
  "arrayAt xs i = (if i < length xs then Some (xs ! i) else None)"

definition arrayIncludes :: "'a list \<Rightarrow> 'a option \<Rightarrow> bool" where
  "arrayIncludes xs v = (case v of None \<Rightarrow> False | Some x \<Rightarrow> x \<in> set xs)"

definition isConsistent :: "string \<Rightarrow> string \<Rightarrow> string \<Rightarrow> bool" where
  "isConsistent fAlleles mAlleles cAlleles =
     (let c1FromF = arrayIncludes fAlleles (arrayAt cAlleles 0);
          c2FromM = arrayIncludes mAlleles (arrayAt cAlleles 1)
      in if c1FromF \<and> c2FromM then True
         else let c1FromM = arrayIncludes mAlleles (arrayAt cAlleles 0);
                  c2FromF = arrayIncludes fAlleles (arrayAt cAlleles 1)
              in if c1FromM \<and> c2FromF then True else False)"

record MendelianResult =
  totalSNPs :: int
  consistent :: int
  inconsistent :: int
  inconsistentEntries :: "GenotypeEntry list"

text \<open>The loop variables \<open>consistent\<close>, \<open>inconsistent\<close> and \<open>inconsistentEntries\<close>.\<close>

type_synonym MendelianAcc = "int \<times> int \<times> GenotypeEntry list"

text \<open>The two \<open>continue\<close> tests of lines 166-167: a genotype is missing, or is not two
  characters long.\<close>

definition mendelianSkipped :: "GenotypeEntry \<Rightarrow> bool" where
  "mendelianSkipped entry =
     ((father entry = [] \<or> mother entry = [] \<or> son1 entry = [] \<or> son2 entry = [])
      \<or> (length (father entry) \<noteq> 2 \<or> length (mother entry) \<noteq> 2
          \<or> length (son1 entry) \<noteq> 2 \<or> length (son2 entry) \<noteq> 2))"

fun mendelianStep :: "MendelianAcc \<Rightarrow> GenotypeEntry \<Rightarrow> MendelianAcc" where
  "mendelianStep (con, inc, incEntries) entry =
     (if mendelianSkipped entry then (con, inc, incEntries)
      else if \<not> isConsistent (father entry) (mother entry) (son1 entry)
        then (con, inc + 1, incEntries @ [entry])
      else if \<not> isConsistent (father entry) (mother entry) (son2 entry)
        then (con, inc + 1, incEntries @ [entry])
      else (con + 1, inc, incEntries))"

definition analyzeMendelianConsistency :: "GenotypeEntry list \<Rightarrow> MendelianResult" where
  "analyzeMendelianConsistency entries =
     (case foldl mendelianStep (0, 0, []) (autosomal entries) of
        (con, inc, incEntries) \<Rightarrow>
          \<lparr>totalSNPs = con + inc, consistent = con, inconsistent = inc,
           inconsistentEntries = incEntries\<rparr>)"

section \<open>Mitochondrial concordance (utils/analysis.ts, lines 215-240)\<close>

record MitochondrialResult =
  mtTotal :: int
  mtMatches :: int
  mtMismatches :: int
  mismatchedEntries :: "GenotypeEntry list"

type_synonym MitochondrialAcc = "int \<times> int \<times> GenotypeEntry list"

fun mitochondrialStep :: "MitochondrialAcc \<Rightarrow> GenotypeEntry \<Rightarrow> MitochondrialAcc" where
  "mitochondrialStep (matches, mismatches, mismatched) entry =
     (if mother entry = [] \<or> son1 entry = [] \<or> son2 entry = []
        then (matches, mismatches, mismatched)
      else if length (mother entry) = 0 \<or> length (son1 entry) = 0 \<or> length (son2 entry) = 0
        then (matches, mismatches, mismatched)
      else if mother entry = son1 entry \<and> mother entry = son2 entry
        then (matches + 1, mismatches, mismatched)
      else (matches, mismatches + 1, mismatched @ [entry]))"

definition analyzeMitochondrial :: "GenotypeEntry list \<Rightarrow> MitochondrialResult" where
  "analyzeMitochondrial entries =
     (let mtOnly = filter (\<lambda>e. chromosome e = ''MT'') entries
      in case foldl mitochondrialStep (0, 0, []) mtOnly of
           (matches, mismatches, mismatched) \<Rightarrow>
             \<lparr>mtTotal = matches + mismatches, mtMatches = matches,
              mtMismatches = mismatches, mismatchedEntries = mismatched\<rparr>)"

section \<open>Sibling sharing (utils/analysis.ts, lines 242-301)\<close>

text \<open>
  The counters are JavaScript numbers. \<open>matches\<close> only ever holds multiples of one half
  and is modelled as an exact rational. A division is modelled by \<open>jsDivide\<close>, which
  is \<open>None\<close> where JavaScript yields \<open>NaN\<close> or an infinity (a zero divisor), so that a
  missing guard would show as \<open>None\<close> and not as HOL's \<open>x / 0 = 0\<close>.
\<close>

definition jsDivide :: "rat \<Rightarrow> rat \<Rightarrow> rat option" where
  "jsDivide a b = (if b = 0 then None else Some (a / b))"

text \<open>\<open>split('').sort()\<close>: the default sort orders single code units by their value.\<close>

definition sortAlleles :: "string \<Rightarrow> string" where
  "sortAlleles s = sort_key (of_char :: char \<Rightarrow> nat) s"

fun indexOfFrom :: "'a list \<Rightarrow> 'a \<Rightarrow> int \<Rightarrow> int" where
  "indexOfFrom [] x i = - 1"
| "indexOfFrom (y # ys) x i = (if y = x then i else indexOfFrom ys x (i + 1))"

definition indexOf :: "'a list \<Rightarrow> 'a option \<Rightarrow> int" where
  "indexOf xs v = (case v of None \<Rightarrow> - 1 | Some x \<Rightarrow> indexOfFrom xs x 0)"

text \<open>\<open>xs.splice(i, 1)\<close> for an index \<open>i\<close> that \<open>indexOf\<close> found.\<close>

definition splice1 :: "'a list \<Rightarrow> int \<Rightarrow> 'a list" where
  "splice1 xs i = take (nat i) xs @ drop (nat i + 1) xs"

definition sharedAlleles :: "string \<Rightarrow> string \<Rightarrow> int" where
  "sharedAlleles s1str s2str =
     (let s1 = sortAlleles s1str;
          s2 = sortAlleles s2str;
          idx1 = indexOf s2 (arrayAt s1 0);
          shared = (if idx1 \<noteq> - 1 then 1 else 0);
          s2Copy = (if idx1 \<noteq> - 1 then splice1 s2 idx1 else s2)
      in if arrayIncludes s2Copy (arrayAt s1 1) then shared + 1 else shared)"

text \<open>The \<open>continue\<close> test of line 253. The counter \<open>total\<close> is written \<open>total'\<close>, since
  HOL has a constant of that name.\<close>

definition siblingSkipped :: "GenotypeEntry \<Rightarrow> bool" where
  "siblingSkipped entry =
     (son1 entry = [] \<or> son2 entry = [] \<or> length (son1 entry) \<noteq> 2 \<or> length (son2 entry) \<noteq> 2)"

fun siblingStep :: "rat \<times> int \<Rightarrow> GenotypeEntry \<Rightarrow> rat \<times> int" where
  "siblingStep (matches, total') entry =
     (if siblingSkipped entry then (matches, total')
      else (matches + of_int (sharedAlleles (son1 entry) (son2 entry)) / 2, total' + 1))"

record SiblingComparison =
  sibTotalSNPs :: int
  sibMatches :: rat
  matchPercentage :: "rat option"

definition analyzeSiblingSharing :: "GenotypeEntry list \<Rightarrow> SiblingComparison" where
  "analyzeSiblingSharing entries =
     (case foldl siblingStep (0, 0) (autosomal entries) of
        (matches, total') \<Rightarrow>
          \<lparr>sibTotalSNPs = total', sibMatches = matches,
           matchPercentage =
             (if total' > 0 then map_option (\<lambda>q. q * 100) (jsDivide matches (of_int total'))
              else Some 0)\<rparr>)"

section \<open>Haplogroup estimation (utils/haplogroup.ts)\<close>

record Marker =
  markerPosition :: coordinate
  allele :: string
  weight :: int

record HaplogroupRule =
  haplogroup :: string
  markers :: "Marker list"
  ruleDescription :: "string option"

text \<open>The source's helper \<open>m(pos, allele, weight = 1)\<close>.\<close>

definition mkMarker :: "int \<Rightarrow> string \<Rightarrow> Marker" where
  "mkMarker pos a = \<lparr>markerPosition = Coord pos, allele = a, weight = 1\<rparr>"

definition mkRule :: "string \<Rightarrow> Marker list \<Rightarrow> string \<Rightarrow> HaplogroupRule" where
  "mkRule h ms d = \<lparr>haplogroup = h, markers = ms, ruleDescription = Some d\<rparr>"

definition mtRules :: "HaplogroupRule list" where
  "mtRules =
    [mkRule ''H'' [mkMarker 7028 ''C'', mkMarker 2706 ''A'']
       ''The most common maternal lineage in Europe.'',
     mkRule ''H7'' [mkMarker 7028 ''C'', mkMarker 2706 ''A'', mkMarker 4793 ''G'']
       ''Found across Europe, with peaks in the Near East and Basque country.'',
     mkRule ''H7a''
       [mkMarker 7028 ''C'', mkMarker 2706 ''A'', mkMarker 4793 ''G'', mkMarker 1719 ''A'']
       ''A specific subclade of H7.'',
     mkRule ''H7a1''
       [mkMarker 7028 ''C'', mkMarker 2706 ''A'', mkMarker 4793 ''G'', mkMarker 1719 ''A'',
        mkMarker 16261 ''T'']
       (''Your Father'' @ [CHR 0x27] @ ''s probable lineage.''),
     mkRule ''H11''
       [mkMarker 7028 ''C'', mkMarker 2706 ''A'', mkMarker 8448 ''C'', mkMarker 13759 ''A'']
       ''An ancient European lineage, common in Central/Eastern Europe.'',
     mkRule ''H11a''
       [mkMarker 7028 ''C'', mkMarker 2706 ''A'', mkMarker 8448 ''C'', mkMarker 13759 ''A'',
        mkMarker 961 ''G'', mkMarker 16293 ''G'']
       ''Widespread in Central and Eastern Europe.'',
     mkRule ''H11a2''
       [mkMarker 7028 ''C'', mkMarker 2706 ''A'', mkMarker 8448 ''C'', mkMarker 13759 ''A'',
        mkMarker 961 ''G'', mkMarker 16293 ''G'', mkMarker 14587 ''G'']
       ''Specific branch of H11a.'',
     mkRule ''H11a2a2''
       [mkMarker 8448 ''C'', mkMarker 13759 ''A'', mkMarker 16293 ''G'', mkMarker 14587 ''G'',
        mkMarker 16140 ''C'', mkMarker 5585 ''A'', mkMarker 15670 ''C'']
       (''Your Mother'' @ [CHR 0x27] @ ''s probable lineage (Central/Eastern European).''),
     mkRule ''M'' [mkMarker 10400 ''T'', mkMarker 14783 ''C''] ''Major Asian haplogroup.'',
     mkRule ''A'' [mkMarker 663 ''G'', mkMarker 1736 ''A'']
       ''Found in Indigenous Americas and Asia.'',
     mkRule ''B'' [mkMarker 8281 ''d'', mkMarker 8282 ''d'', mkMarker 8283 ''d'']
       ''Found in Indigenous Americas and Asia (9bp deletion).'']"

text \<open>The lookup \<open>mtEntries\<close> (lines 91-100): a \<open>Map\<close> from position to genotype, filled
  in sequence order, a later \<open>set\<close> replacing an earlier one at the same key.\<close>

definition preferredAllele :: "GenotypeEntry \<Rightarrow> string" where
  "preferredAllele e = (if mother e \<noteq> [] \<and> mother e \<noteq> ''--'' then mother e else son1 e)"

definition mtEntriesStep ::
  "(coordinate \<rightharpoonup> string) \<Rightarrow> GenotypeEntry \<Rightarrow> (coordinate \<rightharpoonup> string)" where
  "mtEntriesStep mp e =
     (if chromosome e = ''MT''
      then (let a = preferredAllele e in if a \<noteq> [] then mp(position e \<mapsto> a) else mp)
      else mp)"

definition mtEntries :: "GenotypeEntry list \<Rightarrow> (coordinate \<rightharpoonup> string)" where
  "mtEntries entries = foldl mtEntriesStep Map.empty entries"

text \<open>\<open>val.includes(allele)\<close> on strings: \<open>allele\<close> occurs in \<open>val\<close> as a substring.\<close>

fun startsWith :: "string \<Rightarrow> string \<Rightarrow> bool" where
  "startsWith s [] = True"
| "startsWith [] (p # ps) = False"
| "startsWith (c # cs) (p # ps) = (c = p \<and> startsWith cs ps)"

fun stringIncludes :: "string \<Rightarrow> string \<Rightarrow> bool" where
  "stringIncludes [] p = startsWith [] p"
| "stringIncludes (c # cs) p = (startsWith (c # cs) p \<or> stringIncludes cs p)"

text \<open>The inner loop over a rule's markers, on the counters \<open>matches\<close> and \<open>total\<close> (written \<open>total'\<close>: HOL has a constant \<open>total\<close>).\<close>

fun markerStep :: "(coordinate \<rightharpoonup> string) \<Rightarrow> int \<times> int \<Rightarrow> Marker \<Rightarrow> int \<times> int" where
  "markerStep mp (matches, total') mk =
     (case mp (markerPosition mk) of
        None \<Rightarrow> (matches, total')
      | Some val \<Rightarrow>
          if val \<noteq> []
          then (if stringIncludes val (allele mk) then (matches + 1, total' + 1)
                else (matches, total' + 1))
          else (matches, total'))"

definition countMarkers :: "(coordinate \<rightharpoonup> string) \<Rightarrow> HaplogroupRule \<Rightarrow> int \<times> int" where
  "countMarkers mp rule = foldl (markerStep mp) (0, 0) (markers rule)"

text \<open>
  \<open>percentage\<close> and the two scores are JavaScript doubles. They are modelled as exact
  rationals: equal quotients give equal doubles and rounding is monotone, so the
  comparisons \<open>percentage >= 50\<close> and \<open>score > currentScore\<close> agree with the exact ones
  unless two different scores coincide to the last bit, which needs marker counts far
  beyond any rule table.
\<close>

record BestMatch =
  bestHaplogroup :: string
  bestMatches :: int
  bestTotal :: int
  bestPercentage :: rat
  bestDescription :: string

definition initialBestMatch :: BestMatch where
  "initialBestMatch =
     \<lparr>bestHaplogroup = ''Undetermined'', bestMatches = 0, bestTotal = 0,
      bestPercentage = 0, bestDescription = []\<rparr>"

definition ruleStep :: "(coordinate \<rightharpoonup> string) \<Rightarrow> BestMatch \<Rightarrow> HaplogroupRule \<Rightarrow> BestMatch" where
  "ruleStep mp bestMatch rule =
     (case countMarkers mp rule of
        (matches, total') \<Rightarrow>
          if total' > 0 then
            (case jsDivide (of_int matches) (of_int total') of
               None \<Rightarrow> bestMatch
             | Some q \<Rightarrow>
                 let percentage = q * 100 in
                 if percentage \<ge> 50 then
                   (let score = of_int matches * 100 + percentage;
                        currentScore = of_int (bestMatches bestMatch) * 100
                                       + bestPercentage bestMatch
                    in if score > currentScore
                       then \<lparr>bestHaplogroup = haplogroup rule, bestMatches = matches,
                             bestTotal = total', bestPercentage = percentage,
                             bestDescription =
                               (case ruleDescription rule of None \<Rightarrow> [] | Some d \<Rightarrow> d)\<rparr>
                       else bestMatch)
                 else bestMatch)
          else bestMatch)"

definition findBestMatch :: "HaplogroupRule list \<Rightarrow> (coordinate \<rightharpoonup> string) \<Rightarrow> BestMatch" where
  "findBestMatch rules mp = foldl (ruleStep mp) initialBestMatch rules"

record HaplogroupDetails =
  matchCount :: int
  totalmarkers :: int
  percentage :: rat
  description :: string

record HaplogroupResult =
  maternal :: string
  paternal :: string
  details :: HaplogroupDetails

definition haplogroupResult :: "BestMatch \<Rightarrow> HaplogroupResult" where
  "haplogroupResult bestMatch =
     (let maternalHaplo =
            (if bestHaplogroup bestMatch \<noteq> ''Undetermined'' then bestHaplogroup bestMatch
             else ''Undetermined (Try external tool)'')
      in \<lparr>maternal = maternalHaplo,
          paternal = ''Requires advanced Y-tree traversal (External Tool Recommended)'',
          details = \<lparr>matchCount = bestMatches bestMatch, totalmarkers = bestTotal bestMatch,
                     percentage = bestPercentage bestMatch,
                     description = bestDescription bestMatch\<rparr>\<rparr>)"

text \<open>The body of \<open>estimateHaplogroups\<close> with the rule table as a parameter, and the
  exported function, which runs it on the module's table \<open>mtRules\<close>.\<close>

definition estimateHaplogroupsWith ::
  "HaplogroupRule list \<Rightarrow> GenotypeEntry list \<Rightarrow> HaplogroupResult" where
  "estimateHaplogroupsWith rules entries =
     haplogroupResult (findBestMatch rules (mtEntries entries))"

definition estimateHaplogroups :: "GenotypeEntry list \<Rightarrow> HaplogroupResult" where
  "estimateHaplogroups entries = estimateHaplogroupsWith mtRules entries"

section \<open>Vocabulary for the properties\<close>

text \<open>An entry as the parser builds it from one input line
  \<open>rsid chromosome position father son1 son2 mother\<close>; used for the concrete examples.\<close>

definition entry ::
  "string \<Rightarrow> int \<Rightarrow> string \<Rightarrow> string \<Rightarrow> string \<Rightarrow> string \<Rightarrow> GenotypeEntry" where
  "entry chr pos f s1 s2 mo =
     \<lparr>rsid = ''rs0'', chromosome = chr, position = Coord pos,
      father = f, son1 = s1, son2 = s2, mother = mo\<rparr>"

text \<open>The two tests a rule passes before its score is compared (lines 125 and 129):
  \<open>total > 0\<close> and \<open>percentage >= 50\<close>; the score of line 134; and the value
  assigned to \<open>bestMatch\<close> at lines 138-144.\<close>

definition rulePercentage :: "(coordinate \<rightharpoonup> string) \<Rightarrow> HaplogroupRule \<Rightarrow> rat option" where
  "rulePercentage mp rule =
     (case countMarkers mp rule of
        (matches, total') \<Rightarrow>
          map_option (\<lambda>q. q * 100) (jsDivide (of_int matches) (of_int total')))"

definition ruleCandidate :: "(coordinate \<rightharpoonup> string) \<Rightarrow> HaplogroupRule \<Rightarrow> bool" where
  "ruleCandidate mp rule =
     (snd (countMarkers mp rule) > 0
      \<and> (case rulePercentage mp rule of None \<Rightarrow> False | Some p \<Rightarrow> p \<ge> 50))"

definition ruleScore :: "(coordinate \<rightharpoonup> string) \<Rightarrow> HaplogroupRule \<Rightarrow> rat" where
  "ruleScore mp rule =
     of_int (fst (countMarkers mp rule)) * 100
     + (case rulePercentage mp rule of None \<Rightarrow> 0 | Some p \<Rightarrow> p)"

definition ruleBestMatch :: "(coordinate \<rightharpoonup> string) \<Rightarrow> HaplogroupRule \<Rightarrow> BestMatch" where
  "ruleBestMatch mp rule =
     \<lparr>bestHaplogroup = haplogroup rule,
      bestMatches = fst (countMarkers mp rule),
      bestTotal = snd (countMarkers mp rule),
      bestPercentage = (case rulePercentage mp rule of None \<Rightarrow> 0 | Some p \<Rightarrow> p),
      bestDescription = (case ruleDescription rule of None \<Rightarrow> [] | Some d \<Rightarrow> d)\<rparr>"

text \<open>The wording of two properties: a chromosome label that is an unsigned decimal
  integer, and the preferred genotype of a record, the mother's if it is non-empty and
  son1's otherwise.\<close>

definition unsignedDecimalLabel :: "string \<Rightarrow> bool" where
  "unsignedDecimalLabel c = (c \<noteq> [] \<and> list_all (isRadixDigit 10) c)"

definition motherIfNonEmpty :: "GenotypeEntry \<Rightarrow> string" where
  "motherIfNonEmpty e = (if mother e \<noteq> [] then mother e else son1 e)"

section \<open>Auxiliary facts\<close>

lemma arrayAt_simps:
  "arrayAt (x # xs) 0 = Some x"
  "arrayAt (x # y # xs) 1 = Some y"
  "arrayAt (x # y # xs) (Suc 0) = Some y"
  by (simp_all add: arrayAt_def)

lemma length2_cases: "length xs = 2 \<Longrightarrow> \<exists>a b. xs = [a, b]"
  by (cases xs; cases "tl xs") auto

lemma isConsistent_pairs:
  "isConsistent [f0, f1] [m0, m1] [c0, c1] =
     ((c0 \<in> {f0, f1} \<and> c1 \<in> {m0, m1}) \<or> (c0 \<in> {m0, m1} \<and> c1 \<in> {f0, f1}))"
  by (auto simp: isConsistent_def arrayIncludes_def arrayAt_simps)

lemma mendelianStep_skip: "mendelianSkipped e \<Longrightarrow> mendelianStep st e = st"
  by (cases st) simp

lemma mendelianStep_nonneg:
  "0 \<le> fst st \<Longrightarrow> 0 \<le> fst (snd st) \<Longrightarrow>
   0 \<le> fst (mendelianStep st e) \<and> 0 \<le> fst (snd (mendelianStep st e))"
  by (cases st) simp

lemma foldl_mendelianStep_nonneg:
  "0 \<le> fst st \<Longrightarrow> 0 \<le> fst (snd st) \<Longrightarrow>
   0 \<le> fst (foldl mendelianStep st es) \<and> 0 \<le> fst (snd (foldl mendelianStep st es))"
proof (induction es arbitrary: st)
  case Nil
  then show ?case by simp
next
  case (Cons e es)
  have "0 \<le> fst (mendelianStep st e) \<and> 0 \<le> fst (snd (mendelianStep st e))"
    using Cons.prems by (rule mendelianStep_nonneg)
  then show ?case using Cons.IH [of "mendelianStep st e"] by simp
qed

lemma analyzeMendelian_fields:
  "consistent (analyzeMendelianConsistency es)
     = fst (foldl mendelianStep (0, 0, []) (autosomal es))"
  "inconsistent (analyzeMendelianConsistency es)
     = fst (snd (foldl mendelianStep (0, 0, []) (autosomal es)))"
  "totalSNPs (analyzeMendelianConsistency es)
     = consistent (analyzeMendelianConsistency es) + inconsistent (analyzeMendelianConsistency es)"
  by (simp_all add: analyzeMendelianConsistency_def split: prod.splits)

lemma foldl_mendelian_drop_skipped:
  "mendelianSkipped e \<Longrightarrow>
   foldl mendelianStep st (autosomal (es @ e # es')) = foldl mendelianStep st (autosomal (es @ es'))"
  by (simp add: autosomal_def mendelianStep_skip)

section \<open>The trio-consistency predicate\<close>

text \<open>
  C4. For every record the Mendelian loop retains (father, mother, son1 and son2 all
  non-empty and exactly two characters long), a child genotype \<open>(c0, c1)\<close> is judged
  consistent exactly when \<open>c0\<close> is one of the father's alleles and \<open>c1\<close> one of the
  mother's, or \<open>c0\<close> is one of the mother's and \<open>c1\<close> one of the father's. With father
  \<open>AG\<close> and mother \<open>CT\<close>, the children \<open>AC\<close> and \<open>GT\<close> are consistent and \<open>CC\<close> is not.
\<close>

theorem isConsistent_allele_origin:
  "\<not> mendelianSkipped e \<Longrightarrow> child = son1 e \<or> child = son2 e \<Longrightarrow>
   (isConsistent (father e) (mother e) child =
      ((child ! 0 \<in> set (father e) \<and> child ! 1 \<in> set (mother e))
       \<or> (child ! 0 \<in> set (mother e) \<and> child ! 1 \<in> set (father e))))
   \<and> isConsistent ''AG'' ''CT'' ''AC''
   \<and> isConsistent ''AG'' ''CT'' ''GT''
   \<and> \<not> isConsistent ''AG'' ''CT'' ''CC''"
proof -
  assume "\<not> mendelianSkipped e" and "child = son1 e \<or> child = son2 e"
  then have "length (father e) = 2" "length (mother e) = 2" "length child = 2"
    by (auto simp: mendelianSkipped_def)
  then obtain f0 f1 m0 m1 c0 c1
    where "father e = [f0, f1]" "mother e = [m0, m1]" "child = [c0, c1]"
    using length2_cases by metis
  then have "isConsistent (father e) (mother e) child =
           ((child ! 0 \<in> set (father e) \<and> child ! 1 \<in> set (mother e))
            \<or> (child ! 0 \<in> set (mother e) \<and> child ! 1 \<in> set (father e)))"
    by (simp add: isConsistent_pairs)
  moreover have "isConsistent ''AG'' ''CT'' ''AC''" by (simp add: isConsistent_pairs)
  moreover have "isConsistent ''AG'' ''CT'' ''GT''" by (simp add: isConsistent_pairs)
  moreover have "\<not> isConsistent ''AG'' ''CT'' ''CC''" by (simp add: isConsistent_pairs)
  ultimately show ?thesis by blast
qed

theorem isConsistent_allele_origin_witness:
  "\<not> mendelianSkipped (entry ''7'' 1500 ''AG'' ''AC'' ''CC'' ''CT'')
   \<and> isConsistent ''AG'' ''CT'' ''AC''
   \<and> \<not> isConsistent ''AG'' ''CT'' ''CC''"
  using isConsistent_allele_origin
    [of "entry ''7'' 1500 ''AG'' ''AC'' ''CC'' ''CT''" "''AC''"]
  by (simp add: entry_def mendelianSkipped_def)

section \<open>The Mendelian report\<close>

text \<open>
  C7. For every sequence of records the Mendelian report satisfies
  \<open>totalSNPs = consistent + inconsistent\<close> with both counts non-negative, and a record
  that the loop skips (a genotype missing or not two characters long) adds to neither
  count: the report is the same with and without it.
\<close>

theorem mendelian_total_is_sum:
  "totalSNPs (analyzeMendelianConsistency es)
     = consistent (analyzeMendelianConsistency es) + inconsistent (analyzeMendelianConsistency es)
   \<and> 0 \<le> consistent (analyzeMendelianConsistency es)
   \<and> 0 \<le> inconsistent (analyzeMendelianConsistency es)
   \<and> (mendelianSkipped e \<longrightarrow>
        analyzeMendelianConsistency (es @ e # es') = analyzeMendelianConsistency (es @ es'))"
proof -
  have nn: "0 \<le> fst (foldl mendelianStep (0, 0, []) (autosomal es))
      \<and> 0 \<le> fst (snd (foldl mendelianStep (0, 0, []) (autosomal es)))"
    by (rule foldl_mendelianStep_nonneg) simp_all
  have skip: "mendelianSkipped e \<longrightarrow>
        analyzeMendelianConsistency (es @ e # es') = analyzeMendelianConsistency (es @ es')"
    by (simp add: analyzeMendelianConsistency_def foldl_mendelian_drop_skipped)
  show ?thesis using nn skip by (simp add: analyzeMendelian_fields)
qed

theorem mendelian_total_is_sum_witness:
  "mendelianSkipped (entry ''3'' 20 ''A'' [] ''AG'' ''AA'')
   \<and> totalSNPs (analyzeMendelianConsistency
        [entry ''1'' 10 ''AG'' ''AC'' ''CC'' ''CT'', entry ''3'' 20 ''A'' [] ''AG'' ''AA'']) = 1
   \<and> inconsistent (analyzeMendelianConsistency
        [entry ''1'' 10 ''AG'' ''AC'' ''CC'' ''CT'', entry ''3'' 20 ''A'' [] ''AG'' ''AA'']) = 1"
  using mendelian_total_is_sum
    [of "[entry ''1'' 10 ''AG'' ''AC'' ''CC'' ''CT'']" "entry ''3'' 20 ''A'' [] ''AG'' ''AA''" "[]"]
  by (simp add: entry_def mendelianSkipped_def analyzeMendelianConsistency_def autosomal_def
      autosomalLabel_def parseInt_def stripSign_def hexPrefix_def isWhiteSpace_def isRadixDigit_def digitValue_def
      isConsistent_def arrayIncludes_def arrayAt_def)

section \<open>Sibling sharing: the shared-allele count\<close>

lemma sortAlleles_pair:
  "sortAlleles [x, y] = (if (of_char x :: nat) \<le> of_char y then [x, y] else [y, x])"
  by (simp add: sortAlleles_def)

lemma sortAlleles_pair_cases:
  "sortAlleles [x, y] = [x, y] \<or> sortAlleles [x, y] = [y, x]"
  by (simp add: sortAlleles_pair)

lemma shared_sorted:
  "sortAlleles s1 = [a, b] \<Longrightarrow> sortAlleles s2 = [c, d] \<Longrightarrow>
   sharedAlleles s1 s2 = int (size ({#a, b#} \<inter># {#c, d#}))"
  by (auto simp: sharedAlleles_def indexOf_def arrayAt_simps arrayIncludes_def splice1_def
      Let_def inter_add_left1 inter_add_left2 inter_add_right1 inter_add_right2)

lemma sharedAlleles_pairs:
  "sharedAlleles [a, b] [c, d] = int (size ({#a, b#} \<inter># {#c, d#}))"
proof -
  obtain a' b' where s1: "sortAlleles [a, b] = [a', b']" and m1: "{#a', b'#} = {#a, b#}"
    using sortAlleles_pair_cases [of a b] by (auto simp: add_mset_commute)
  obtain c' d' where s2: "sortAlleles [c, d] = [c', d']" and m2: "{#c', d'#} = {#c, d#}"
    using sortAlleles_pair_cases [of c d] by (auto simp: add_mset_commute)
  show ?thesis
    using shared_sorted [OF s1 s2] by (simp only: m1 m2)
qed

lemma sharedAlleles_mset:
  "length s1 = 2 \<Longrightarrow> length s2 = 2 \<Longrightarrow>
   sharedAlleles s1 s2 = int (size (mset s1 \<inter># mset s2))"
proof -
  assume "length s1 = 2" "length s2 = 2"
  then obtain a b c d where "s1 = [a, b]" "s2 = [c, d]"
    using length2_cases by metis
  then show ?thesis by (simp add: sharedAlleles_pairs)
qed

lemma sharedAlleles_sym:
  "length s1 = 2 \<Longrightarrow> length s2 = 2 \<Longrightarrow> sharedAlleles s1 s2 = sharedAlleles s2 s1"
  by (simp add: sharedAlleles_mset multiset_inter_commute)

lemma analyzeSibling_fields:
  "sibMatches (analyzeSiblingSharing es) = fst (foldl siblingStep (0, 0) (autosomal es))"
  "sibTotalSNPs (analyzeSiblingSharing es) = snd (foldl siblingStep (0, 0) (autosomal es))"
  by (simp_all add: analyzeSiblingSharing_def split: prod.splits)

lemma siblingStep_retained:
  "\<not> siblingSkipped e \<Longrightarrow>
   siblingStep st e = (fst st + of_int (sharedAlleles (son1 e) (son2 e)) / 2, snd st + 1)"
  by (cases st) simp

text \<open>
  C5. For every record the sibling loop retains (son1 and son2 both exactly two
  characters), the shared-allele count computed by sorting and consuming matches is
  the size of the multiset intersection of the two allele pairs (each allele of son1
  uses up at most one equal allele of son2), and the record adds \<open>shared / 2\<close> to
  \<open>matches\<close> and one to the total. So \<open>AA\<close> against \<open>AA\<close> adds 1, \<open>AA\<close> against \<open>AG\<close>
  adds one half, \<open>AA\<close> against \<open>GG\<close> adds 0 and \<open>AG\<close> against \<open>GA\<close> adds 1.
\<close>

theorem sibling_shared_alleles:
  "autosomalLabel (chromosome e) \<Longrightarrow> \<not> siblingSkipped e \<Longrightarrow>
     sharedAlleles (son1 e) (son2 e) = int (size (mset (son1 e) \<inter># mset (son2 e)))
   \<and> sibMatches (analyzeSiblingSharing (es @ [e]))
       = sibMatches (analyzeSiblingSharing es) + of_int (sharedAlleles (son1 e) (son2 e)) / 2
   \<and> sibTotalSNPs (analyzeSiblingSharing (es @ [e])) = sibTotalSNPs (analyzeSiblingSharing es) + 1
   \<and> of_int (sharedAlleles ''AA'' ''AA'') / 2 = (1 :: rat)
   \<and> of_int (sharedAlleles ''AA'' ''AG'') / 2 = (1 / 2 :: rat)
   \<and> of_int (sharedAlleles ''AA'' ''GG'') / 2 = (0 :: rat)
   \<and> of_int (sharedAlleles ''AG'' ''GA'') / 2 = (1 :: rat)"
proof -
  assume chr: "autosomalLabel (chromosome e)" and kept: "\<not> siblingSkipped e"
  from kept have len: "length (son1 e) = 2" "length (son2 e) = 2"
    by (simp_all add: siblingSkipped_def)
  have count: "sharedAlleles (son1 e) (son2 e) = int (size (mset (son1 e) \<inter># mset (son2 e)))"
    using len by (rule sharedAlleles_mset)
  have snoc: "autosomal (es @ [e]) = autosomal es @ [e]"
    using chr by (simp add: autosomal_def)
  have m: "sibMatches (analyzeSiblingSharing (es @ [e]))
       = sibMatches (analyzeSiblingSharing es) + of_int (sharedAlleles (son1 e) (son2 e)) / 2"
    by (simp add: analyzeSibling_fields snoc siblingStep_retained [OF kept])
  have t: "sibTotalSNPs (analyzeSiblingSharing (es @ [e])) = sibTotalSNPs (analyzeSiblingSharing es) + 1"
    by (simp add: analyzeSibling_fields snoc siblingStep_retained [OF kept])
  have ex: "of_int (sharedAlleles ''AA'' ''AA'') / 2 = (1 :: rat)"
    "of_int (sharedAlleles ''AA'' ''AG'') / 2 = (1 / 2 :: rat)"
    "of_int (sharedAlleles ''AA'' ''GG'') / 2 = (0 :: rat)"
    "of_int (sharedAlleles ''AG'' ''GA'') / 2 = (1 :: rat)"
    by (simp_all add: sharedAlleles_def sortAlleles_def indexOf_def arrayAt_def
        arrayIncludes_def splice1_def)
  show ?thesis using count m t ex by simp
qed

theorem sibling_shared_alleles_witness:
  "autosomalLabel ''2'' \<and> \<not> siblingSkipped (entry ''2'' 7 ''AG'' ''AA'' ''AG'' ''AA'')
   \<and> sibMatches (analyzeSiblingSharing
        [entry ''1'' 5 ''AA'' ''AG'' ''GA'' ''GG'', entry ''2'' 7 ''AG'' ''AA'' ''AG'' ''AA'']) = 3 / 2"
  using sibling_shared_alleles
    [of "entry ''2'' 7 ''AG'' ''AA'' ''AG'' ''AA''" "[entry ''1'' 5 ''AA'' ''AG'' ''GA'' ''GG'']"]
  by (simp add: entry_def siblingSkipped_def analyzeSiblingSharing_def autosomal_def
      autosomalLabel_def parseInt_def stripSign_def hexPrefix_def isWhiteSpace_def isRadixDigit_def digitValue_def
      sharedAlleles_def sortAlleles_def indexOf_def arrayAt_def arrayIncludes_def splice1_def)

lemma siblingStep_swap:
  "siblingStep st (e\<lparr>son1 := son2 e, son2 := son1 e\<rparr>) = siblingStep st e"
proof (cases "siblingSkipped e")
  case True
  then have "siblingSkipped (e\<lparr>son1 := son2 e, son2 := son1 e\<rparr>)"
    by (auto simp: siblingSkipped_def)
  with True show ?thesis by (cases st) simp
next
  case False
  then have len: "length (son1 e) = 2" "length (son2 e) = 2"
    by (simp_all add: siblingSkipped_def)
  from False have "\<not> siblingSkipped (e\<lparr>son1 := son2 e, son2 := son1 e\<rparr>)"
    by (auto simp: siblingSkipped_def)
  with False show ?thesis
    using sharedAlleles_sym [OF len] by (cases st) simp
qed

lemma autosomal_swap:
  "autosomal (map (\<lambda>e. e\<lparr>son1 := son2 e, son2 := son1 e\<rparr>) es)
     = map (\<lambda>e. e\<lparr>son1 := son2 e, son2 := son1 e\<rparr>) (autosomal es)"
  by (induction es) (simp_all add: autosomal_def)

lemma foldl_siblingStep_swap:
  "foldl siblingStep st (map (\<lambda>e. e\<lparr>son1 := son2 e, son2 := son1 e\<rparr>) es)
     = foldl siblingStep st es"
  by (induction es arbitrary: st) (simp_all add: siblingStep_swap)

text \<open>
  C8. Swapping the \<open>son1\<close> and \<open>son2\<close> fields of every record leaves the whole
  sibling-sharing report (total, sum of shared fractions, percentage) unchanged.
\<close>

theorem sibling_sharing_symmetric:
  "analyzeSiblingSharing (map (\<lambda>e. e\<lparr>son1 := son2 e, son2 := son1 e\<rparr>) es)
     = analyzeSiblingSharing es"
  by (simp add: analyzeSiblingSharing_def autosomal_swap foldl_siblingStep_swap)

theorem sibling_sharing_symmetric_witness:
  "sibMatches (analyzeSiblingSharing [entry ''4'' 9 ''AG'' ''AG'' ''AA'' ''AG'']) = 1 / 2
   \<and> sibMatches (analyzeSiblingSharing [entry ''4'' 9 ''AG'' ''AA'' ''AG'' ''AG'']) = 1 / 2"
  using sibling_sharing_symmetric [of "[entry ''4'' 9 ''AG'' ''AG'' ''AA'' ''AG'']"]
  by (simp add: entry_def siblingSkipped_def analyzeSiblingSharing_def autosomal_def
      autosomalLabel_def parseInt_def stripSign_def hexPrefix_def isWhiteSpace_def isRadixDigit_def digitValue_def
      sharedAlleles_def sortAlleles_def indexOf_def arrayAt_def arrayIncludes_def splice1_def)

section \<open>The mitochondrial report\<close>

lemma analyzeMitochondrial_fields:
  "mtMatches (analyzeMitochondrial es)
     = fst (foldl mitochondrialStep (0, 0, []) (filter (\<lambda>e. chromosome e = ''MT'') es))"
  "mtMismatches (analyzeMitochondrial es)
     = fst (snd (foldl mitochondrialStep (0, 0, []) (filter (\<lambda>e. chromosome e = ''MT'') es)))"
  "mtTotal (analyzeMitochondrial es)
     = mtMatches (analyzeMitochondrial es) + mtMismatches (analyzeMitochondrial es)"
  by (simp_all add: analyzeMitochondrial_def split: prod.splits)

lemma mitochondrialStep_retained:
  "mother e \<noteq> [] \<Longrightarrow> son1 e \<noteq> [] \<Longrightarrow> son2 e \<noteq> [] \<Longrightarrow>
   fst (mitochondrialStep st e)
     = fst st + (if mother e = son1 e \<and> mother e = son2 e then 1 else 0)
   \<and> fst (snd (mitochondrialStep st e))
     = fst (snd st) + (if mother e = son1 e \<and> mother e = son2 e then 0 else 1)"
  by (cases st) auto

lemma mitochondrialStep_father:
  "mitochondrialStep (a, b, map (\<lambda>x. x\<lparr>father := g x\<rparr>) l) (e\<lparr>father := g e\<rparr>)
     = (case mitochondrialStep (a, b, l) e of
          (a', b', l') \<Rightarrow> (a', b', map (\<lambda>x. x\<lparr>father := g x\<rparr>) l'))"
  by auto

lemma foldl_mitochondrialStep_father:
  "foldl mitochondrialStep (a, b, map (\<lambda>x. x\<lparr>father := g x\<rparr>) l)
       (filter (\<lambda>e. chromosome e = ''MT'') (map (\<lambda>x. x\<lparr>father := g x\<rparr>) es))
     = (case foldl mitochondrialStep (a, b, l) (filter (\<lambda>e. chromosome e = ''MT'') es) of
          (a', b', l') \<Rightarrow> (a', b', map (\<lambda>x. x\<lparr>father := g x\<rparr>) l'))"
proof (induction es arbitrary: a b l)
  case Nil
  then show ?case by simp
next
  case (Cons e es)
  show ?case
  proof (cases "chromosome e = ''MT''")
    case False
    then show ?thesis using Cons.IH by simp
  next
    case True
    obtain a' b' l' where st: "mitochondrialStep (a, b, l) e = (a', b', l')"
      by (cases "mitochondrialStep (a, b, l) e") auto
    then have "mitochondrialStep (a, b, map (\<lambda>x. x\<lparr>father := g x\<rparr>) l) (e\<lparr>father := g e\<rparr>)
        = (a', b', map (\<lambda>x. x\<lparr>father := g x\<rparr>) l')"
      by (simp only: mitochondrialStep_father prod.case)
    with True st show ?thesis using Cons.IH [of a' b' l'] by simp
  qed
qed

text \<open>
  C6. A retained mitochondrial record (chromosome \<open>MT\<close>, mother, son1 and son2 all
  non-empty) counts as a match exactly when the mother's string equals son1's and
  son2's, and as a mismatch otherwise; equality is on the strings, so \<open>AG\<close> against
  \<open>GA\<close> is a mismatch. The father field is never read: replacing the father genotypes
  by anything leaves the match, mismatch and total counts unchanged.
\<close>

theorem mitochondrial_exact_match:
  "chromosome e = ''MT'' \<Longrightarrow> mother e \<noteq> [] \<Longrightarrow> son1 e \<noteq> [] \<Longrightarrow> son2 e \<noteq> [] \<Longrightarrow>
     mtMatches (analyzeMitochondrial (es @ [e]))
       = mtMatches (analyzeMitochondrial es)
         + (if mother e = son1 e \<and> mother e = son2 e then 1 else 0)
   \<and> mtMismatches (analyzeMitochondrial (es @ [e]))
       = mtMismatches (analyzeMitochondrial es)
         + (if mother e = son1 e \<and> mother e = son2 e then 0 else 1)
   \<and> mtMatches (analyzeMitochondrial (map (\<lambda>x. x\<lparr>father := g x\<rparr>) rs))
       = mtMatches (analyzeMitochondrial rs)
   \<and> mtMismatches (analyzeMitochondrial (map (\<lambda>x. x\<lparr>father := g x\<rparr>) rs))
       = mtMismatches (analyzeMitochondrial rs)
   \<and> mtTotal (analyzeMitochondrial (map (\<lambda>x. x\<lparr>father := g x\<rparr>) rs))
       = mtTotal (analyzeMitochondrial rs)
   \<and> mtMatches (analyzeMitochondrial [entry ''MT'' 73 [] ''A'' ''A'' ''A'']) = 1
   \<and> mtMismatches (analyzeMitochondrial [entry ''MT'' 73 [] ''G'' ''A'' ''A'']) = 1
   \<and> mtMismatches (analyzeMitochondrial [entry ''MT'' 73 [] ''GA'' ''AG'' ''AG'']) = 1"
proof -
  assume mt: "chromosome e = ''MT''"
    and calls: "mother e \<noteq> []" "son1 e \<noteq> []" "son2 e \<noteq> []"
  have verdict: "mtMatches (analyzeMitochondrial (es @ [e]))
       = mtMatches (analyzeMitochondrial es)
         + (if mother e = son1 e \<and> mother e = son2 e then 1 else 0)
   \<and> mtMismatches (analyzeMitochondrial (es @ [e]))
       = mtMismatches (analyzeMitochondrial es)
         + (if mother e = son1 e \<and> mother e = son2 e then 0 else 1)"
    using mitochondrialStep_retained [OF calls] mt
    by (simp add: analyzeMitochondrial_fields)
  have fold: "foldl mitochondrialStep (0, 0, [])
       (filter (\<lambda>e. chromosome e = ''MT'') (map (\<lambda>x. x\<lparr>father := g x\<rparr>) rs))
     = (case foldl mitochondrialStep (0, 0, []) (filter (\<lambda>e. chromosome e = ''MT'') rs) of
          (a', b', l') \<Rightarrow> (a', b', map (\<lambda>x. x\<lparr>father := g x\<rparr>) l'))"
    using foldl_mitochondrialStep_father [of 0 0 g "[]" rs] by simp
  have indep: "mtMatches (analyzeMitochondrial (map (\<lambda>x. x\<lparr>father := g x\<rparr>) rs))
       = mtMatches (analyzeMitochondrial rs)
   \<and> mtMismatches (analyzeMitochondrial (map (\<lambda>x. x\<lparr>father := g x\<rparr>) rs))
       = mtMismatches (analyzeMitochondrial rs)"
    by (simp add: analyzeMitochondrial_fields(1,2) fold split: prod.splits)
  then have tot: "mtTotal (analyzeMitochondrial (map (\<lambda>x. x\<lparr>father := g x\<rparr>) rs))
       = mtTotal (analyzeMitochondrial rs)"
    by (simp add: analyzeMitochondrial_fields(3))
  have ex: "mtMatches (analyzeMitochondrial [entry ''MT'' 73 [] ''A'' ''A'' ''A'']) = 1"
    "mtMismatches (analyzeMitochondrial [entry ''MT'' 73 [] ''G'' ''A'' ''A'']) = 1"
    "mtMismatches (analyzeMitochondrial [entry ''MT'' 73 [] ''GA'' ''AG'' ''AG'']) = 1"
    by (simp_all add: analyzeMitochondrial_def entry_def)
  show ?thesis using verdict indep tot ex by simp
qed

theorem mitochondrial_exact_match_witness:
  "mtMatches (analyzeMitochondrial
      [entry ''MT'' 73 ''G'' ''A'' ''A'' ''A'', entry ''MT'' 150 ''C'' ''T'' ''C'' ''C'']) = 1
   \<and> mtMismatches (analyzeMitochondrial
      [entry ''MT'' 73 ''G'' ''A'' ''A'' ''A'', entry ''MT'' 150 ''C'' ''T'' ''C'' ''C'']) = 1
   \<and> mtMatches (analyzeMitochondrial
      [entry ''MT'' 73 ''TT'' ''A'' ''A'' ''A'', entry ''MT'' 150 ''TT'' ''T'' ''C'' ''C'']) = 1"
  using mitochondrial_exact_match
    [of "entry ''MT'' 150 ''C'' ''T'' ''C'' ''C''" "[entry ''MT'' 73 ''G'' ''A'' ''A'' ''A'']"
        "\<lambda>x. ''TT''"
        "[entry ''MT'' 73 ''G'' ''A'' ''A'' ''A'', entry ''MT'' 150 ''C'' ''T'' ''C'' ''C'']"]
  by (simp add: entry_def analyzeMitochondrial_def)

section \<open>Haplogroup estimation: the best match\<close>

lemma markerStep_bounds:
  "0 \<le> fst st \<Longrightarrow> fst st \<le> snd st \<Longrightarrow>
   0 \<le> fst (markerStep mp st mk) \<and> fst (markerStep mp st mk) \<le> snd (markerStep mp st mk)
   \<and> snd (markerStep mp st mk) \<le> snd st + 1"
  by (cases st) (simp split: option.splits)

lemma foldl_markerStep_bounds:
  "0 \<le> fst st \<Longrightarrow> fst st \<le> snd st \<Longrightarrow>
   0 \<le> fst (foldl (markerStep mp) st ms)
   \<and> fst (foldl (markerStep mp) st ms) \<le> snd (foldl (markerStep mp) st ms)
   \<and> snd (foldl (markerStep mp) st ms) \<le> snd st + int (length ms)"
proof (induction ms arbitrary: st)
  case Nil
  then show ?case by simp
next
  case (Cons mk ms)
  have step: "0 \<le> fst (markerStep mp st mk)
      \<and> fst (markerStep mp st mk) \<le> snd (markerStep mp st mk)
      \<and> snd (markerStep mp st mk) \<le> snd st + 1"
    using Cons.prems by (rule markerStep_bounds)
  then show ?case using Cons.IH [of "markerStep mp st mk"] by simp
qed

lemma countMarkers_bounds:
  "0 \<le> fst (countMarkers mp rule)"
  "fst (countMarkers mp rule) \<le> snd (countMarkers mp rule)"
  "snd (countMarkers mp rule) \<le> int (length (markers rule))"
  using foldl_markerStep_bounds [of "(0, 0)" mp "markers rule"]
  by (simp_all add: countMarkers_def)

lemma rulePercentage_tested:
  "0 < snd (countMarkers mp rule) \<Longrightarrow>
   rulePercentage mp rule
     = Some (of_int (fst (countMarkers mp rule)) / of_int (snd (countMarkers mp rule)) * 100)"
  by (cases "countMarkers mp rule") (simp add: rulePercentage_def jsDivide_def)

lemma rulePercentage_untested:
  "snd (countMarkers mp rule) = 0 \<Longrightarrow> rulePercentage mp rule = None"
  by (cases "countMarkers mp rule") (simp add: rulePercentage_def jsDivide_def)

lemma ruleStep_eq:
  "ruleStep mp best rule =
     (if ruleCandidate mp rule
         \<and> ruleScore mp rule > of_int (bestMatches best) * 100 + bestPercentage best
      then ruleBestMatch mp rule else best)"
  by (cases "countMarkers mp rule")
    (auto simp: ruleStep_def ruleCandidate_def ruleScore_def ruleBestMatch_def
      rulePercentage_def jsDivide_def Let_def)

lemma percent_le_100: "(q :: rat) \<le> 1 \<Longrightarrow> q * 100 \<le> 100"
  by simp

lemma candidate_percentage:
  assumes "ruleCandidate mp rule"
  shows "\<exists>p. rulePercentage mp rule = Some p \<and> 50 \<le> p \<and> p \<le> 100"
proof -
  from assms have t: "0 < snd (countMarkers mp rule)"
    by (simp add: ruleCandidate_def)
  let ?m = "fst (countMarkers mp rule)" and ?t = "snd (countMarkers mp rule)"
  have p: "rulePercentage mp rule = Some (of_int ?m / of_int ?t * 100)"
    using t by (rule rulePercentage_tested)
  with assms have lo: "(50 :: rat) \<le> of_int ?m / of_int ?t * 100"
    by (simp add: ruleCandidate_def)
  have "(of_int ?m :: rat) \<le> of_int ?t"
    using countMarkers_bounds(2) [of mp rule] by simp
  then have "(of_int ?m :: rat) / of_int ?t \<le> 1"
    using t by (simp add: divide_le_eq)
  then have "(of_int ?m :: rat) / of_int ?t * 100 \<le> 100" by (rule percent_le_100)
  with p lo show ?thesis by simp
qed

lemma candidate_score_positive: "ruleCandidate mp rule \<Longrightarrow> 0 < ruleScore mp rule"
proof -
  assume c: "ruleCandidate mp rule"
  then obtain p where "rulePercentage mp rule = Some p" "50 \<le> p"
    using candidate_percentage by blast
  moreover have "(0 :: rat) \<le> of_int (fst (countMarkers mp rule)) * 100"
    using countMarkers_bounds(1) [of mp rule] by simp
  ultimately show ?thesis by (simp add: ruleScore_def)
qed

lemma more_matches_higher_score:
  assumes "ruleCandidate mp r1" and "ruleCandidate mp r2"
    and "fst (countMarkers mp r2) < fst (countMarkers mp r1)"
  shows "ruleScore mp r2 < ruleScore mp r1"
proof -
  obtain p1 where p1: "rulePercentage mp r1 = Some p1" "50 \<le> p1"
    using assms(1) candidate_percentage by blast
  obtain p2 where p2: "rulePercentage mp r2 = Some p2" "p2 \<le> 100"
    using assms(2) candidate_percentage by blast
  from assms(3) have "fst (countMarkers mp r2) + 1 \<le> fst (countMarkers mp r1)" by simp
  then have "(of_int (fst (countMarkers mp r2)) + 1 :: rat) \<le> of_int (fst (countMarkers mp r1))"
    by (metis of_int_1 of_int_add of_int_le_iff)
  then have "(of_int (fst (countMarkers mp r2)) * 100 + 100 :: rat)
       \<le> of_int (fst (countMarkers mp r1)) * 100" by simp
  with p1 p2 show ?thesis by (simp add: ruleScore_def)
qed

lemma ruleBestMatch_score:
  "of_int (bestMatches (ruleBestMatch mp rule)) * 100 + bestPercentage (ruleBestMatch mp rule)
     = ruleScore mp rule"
  by (simp add: ruleBestMatch_def ruleScore_def)

lemma findBestMatch_snoc:
  "findBestMatch (rules @ [r]) mp = ruleStep mp (findBestMatch rules mp) r"
  by (simp add: findBestMatch_def)

lemma findBestMatch_cases:
  "(filter (ruleCandidate mp) rules = [] \<and> findBestMatch rules mp = initialBestMatch)
   \<or> (\<exists>pre r post. rules = pre @ r # post \<and> ruleCandidate mp r
         \<and> findBestMatch rules mp = ruleBestMatch mp r
         \<and> (\<forall>x \<in> set pre. ruleCandidate mp x \<longrightarrow> ruleScore mp x < ruleScore mp r)
         \<and> (\<forall>x \<in> set post. ruleCandidate mp x \<longrightarrow> ruleScore mp x \<le> ruleScore mp r))"
proof (induction rules rule: rev_induct)
  case Nil
  then show ?case by (simp add: findBestMatch_def)
next
  case (snoc x rules)
  from snoc.IH show ?case
  proof (elim disjE conjE exE)
    assume none: "filter (ruleCandidate mp) rules = []"
      and init: "findBestMatch rules mp = initialBestMatch"
    show ?thesis
    proof (cases "ruleCandidate mp x")
      case False
      with none init show ?thesis
        by (simp add: findBestMatch_snoc ruleStep_eq)
    next
      case True
      then have "findBestMatch (rules @ [x]) mp = ruleBestMatch mp x"
        using init candidate_score_positive [OF True]
        by (simp add: findBestMatch_snoc ruleStep_eq initialBestMatch_def)
      moreover have "\<forall>y \<in> set rules. ruleCandidate mp y \<longrightarrow> ruleScore mp y < ruleScore mp x"
        using none by (simp add: filter_empty_conv)
      ultimately have "rules @ [x] = rules @ x # [] \<and> ruleCandidate mp x
         \<and> findBestMatch (rules @ [x]) mp = ruleBestMatch mp x
         \<and> (\<forall>y \<in> set rules. ruleCandidate mp y \<longrightarrow> ruleScore mp y < ruleScore mp x)
         \<and> (\<forall>y \<in> set []. ruleCandidate mp y \<longrightarrow> ruleScore mp y \<le> ruleScore mp x)"
        using True by simp
      then show ?thesis by blast
    qed
  next
    fix pre r post
    assume split: "rules = pre @ r # post" and cand: "ruleCandidate mp r"
      and best: "findBestMatch rules mp = ruleBestMatch mp r"
      and before: "\<forall>y \<in> set pre. ruleCandidate mp y \<longrightarrow> ruleScore mp y < ruleScore mp r"
      and after: "\<forall>y \<in> set post. ruleCandidate mp y \<longrightarrow> ruleScore mp y \<le> ruleScore mp r"
    show ?thesis
    proof (cases "ruleCandidate mp x \<and> ruleScore mp r < ruleScore mp x")
      case True
      then have "findBestMatch (rules @ [x]) mp = ruleBestMatch mp x"
        using best by (simp add: findBestMatch_snoc ruleStep_eq ruleBestMatch_score)
      moreover have "\<forall>y \<in> set rules. ruleCandidate mp y \<longrightarrow> ruleScore mp y < ruleScore mp x"
        using True before after split by fastforce
      ultimately have "rules @ [x] = rules @ x # [] \<and> ruleCandidate mp x
         \<and> findBestMatch (rules @ [x]) mp = ruleBestMatch mp x
         \<and> (\<forall>y \<in> set rules. ruleCandidate mp y \<longrightarrow> ruleScore mp y < ruleScore mp x)
         \<and> (\<forall>y \<in> set []. ruleCandidate mp y \<longrightarrow> ruleScore mp y \<le> ruleScore mp x)"
        using True by simp
      then show ?thesis by blast
    next
      case False
      then have "findBestMatch (rules @ [x]) mp = ruleBestMatch mp r"
        using best by (auto simp: findBestMatch_snoc ruleStep_eq ruleBestMatch_score)
      moreover have "\<forall>y \<in> set (post @ [x]). ruleCandidate mp y \<longrightarrow> ruleScore mp y \<le> ruleScore mp r"
        using False after by auto
      ultimately have "rules @ [x] = pre @ r # (post @ [x]) \<and> ruleCandidate mp r
         \<and> findBestMatch (rules @ [x]) mp = ruleBestMatch mp r
         \<and> (\<forall>y \<in> set pre. ruleCandidate mp y \<longrightarrow> ruleScore mp y < ruleScore mp r)
         \<and> (\<forall>y \<in> set (post @ [x]). ruleCandidate mp y \<longrightarrow> ruleScore mp y \<le> ruleScore mp r)"
        using split cand before by simp
      then show ?thesis by blast
    qed
  qed
qed


lemma no_candidate_initial:
  "filter (ruleCandidate mp) rules = [] \<Longrightarrow> findBestMatch rules mp = initialBestMatch"
  using findBestMatch_cases [of mp rules] by auto

lemmas haplogroup_eval =
  estimateHaplogroups_def estimateHaplogroupsWith_def haplogroupResult_def findBestMatch_def
  ruleStep_def initialBestMatch_def countMarkers_def jsDivide_def
  ruleCandidate_def rulePercentage_def ruleScore_def ruleBestMatch_def
  mtRules_def mkRule_def mkMarker_def mtEntries_def mtEntriesStep_def preferredAllele_def
  entry_def

text \<open>
  C1 (as amended). If no rule is a candidate (no rule with at least one tested marker
  reaches a percentage of at least 50), the loop leaves \<open>bestMatch\<close> at its initial value
  with the label \<open>Undetermined\<close>, and the function returns the maternal label
  \<open>Undetermined (Try external tool)\<close> with \<open>matchCount = 0\<close>, \<open>totalmarkers = 0\<close>,
  \<open>percentage = 0\<close> and an empty description. The returned label is not the bare
  \<open>Undetermined\<close>: the counterexample below evaluates the function on the empty input.
\<close>

theorem undetermined_without_candidate:
  "filter (ruleCandidate (mtEntries entries)) rules = [] \<Longrightarrow>
   bestHaplogroup (findBestMatch rules (mtEntries entries)) = ''Undetermined''
   \<and> estimateHaplogroupsWith rules entries =
     \<lparr>maternal = ''Undetermined (Try external tool)'',
      paternal = ''Requires advanced Y-tree traversal (External Tool Recommended)'',
      details = \<lparr>matchCount = 0, totalmarkers = 0, percentage = 0, description = []\<rparr>\<rparr>"
  by (simp add: no_candidate_initial estimateHaplogroupsWith_def haplogroupResult_def
      initialBestMatch_def)

theorem undetermined_without_candidate_witness:
  "filter (ruleCandidate (mtEntries [entry ''MT'' 7028 ''T'' ''T'' ''T'' ''T''])) mtRules = []
   \<and> maternal (estimateHaplogroups [entry ''MT'' 7028 ''T'' ''T'' ''T'' ''T''])
       = ''Undetermined (Try external tool)''
   \<and> matchCount (details (estimateHaplogroups [entry ''MT'' 7028 ''T'' ''T'' ''T'' ''T''])) = 0"
proof -
  have none:
    "filter (ruleCandidate (mtEntries [entry ''MT'' 7028 ''T'' ''T'' ''T'' ''T''])) mtRules = []"
    by (simp add: haplogroup_eval)
  show ?thesis
    using none undetermined_without_candidate [OF none]
    by (simp add: estimateHaplogroups_def)
qed

theorem undetermined_label_counterexample:
  "filter (ruleCandidate (mtEntries [])) mtRules = []
   \<and> maternal (estimateHaplogroups []) = ''Undetermined (Try external tool)''
   \<and> maternal (estimateHaplogroups []) \<noteq> ''Undetermined''"
  by (simp add: haplogroup_eval)

text \<open>
  C3. When some rule is a candidate (\<open>total > 0\<close> and \<open>100 * matches / total \<ge> 50\<close>),
  the loop ends with the data of a candidate rule whose score
  \<open>matches * 100 + percentage\<close> is strictly greater than that of every candidate listed
  before it and at least that of every candidate listed after it: the highest score
  wins and a tie keeps the earlier rule. A candidate with strictly more matched markers
  has a strictly higher score than one with fewer, whatever their percentages.
\<close>

theorem best_match_first_highest_score:
  "filter (ruleCandidate mp) rules \<noteq> [] \<Longrightarrow>
   (\<exists>pre r post. rules = pre @ r # post \<and> ruleCandidate mp r
       \<and> findBestMatch rules mp = ruleBestMatch mp r
       \<and> (\<forall>x \<in> set pre. ruleCandidate mp x \<longrightarrow> ruleScore mp x < ruleScore mp r)
       \<and> (\<forall>x \<in> set post. ruleCandidate mp x \<longrightarrow> ruleScore mp x \<le> ruleScore mp r))
   \<and> (\<forall>r1 r2. ruleCandidate mp r1 \<and> ruleCandidate mp r2
         \<and> fst (countMarkers mp r2) < fst (countMarkers mp r1)
         \<longrightarrow> ruleScore mp r2 < ruleScore mp r1)"
  using findBestMatch_cases [of mp rules] more_matches_higher_score [of mp]
  by blast

theorem best_match_first_highest_score_witness:
  "filter (ruleCandidate (mtEntries
      [entry ''MT'' 7028 ''C'' ''C'' ''C'' ''C'', entry ''MT'' 2706 ''A'' ''A'' ''A'' ''A'',
       entry ''MT'' 4793 ''G'' ''G'' ''G'' ''G''])) mtRules \<noteq> []
   \<and> maternal (estimateHaplogroups
      [entry ''MT'' 7028 ''C'' ''C'' ''C'' ''C'', entry ''MT'' 2706 ''A'' ''A'' ''A'' ''A'',
       entry ''MT'' 4793 ''G'' ''G'' ''G'' ''G'']) = ''H7''
   \<and> (\<exists>pre r post. mtRules = pre @ r # post
       \<and> findBestMatch mtRules (mtEntries
            [entry ''MT'' 7028 ''C'' ''C'' ''C'' ''C'', entry ''MT'' 2706 ''A'' ''A'' ''A'' ''A'',
             entry ''MT'' 4793 ''G'' ''G'' ''G'' ''G'']) = ruleBestMatch (mtEntries
            [entry ''MT'' 7028 ''C'' ''C'' ''C'' ''C'', entry ''MT'' 2706 ''A'' ''A'' ''A'' ''A'',
             entry ''MT'' 4793 ''G'' ''G'' ''G'' ''G'']) r)"
proof -
  let ?es = "[entry ''MT'' 7028 ''C'' ''C'' ''C'' ''C'', entry ''MT'' 2706 ''A'' ''A'' ''A'' ''A'',
       entry ''MT'' 4793 ''G'' ''G'' ''G'' ''G'']"
  have some: "filter (ruleCandidate (mtEntries ?es)) mtRules \<noteq> []"
    by (simp add: haplogroup_eval)
  have h7: "maternal (estimateHaplogroups ?es) = ''H7''"
    by (simp add: haplogroup_eval)
  show ?thesis
    using some h7 best_match_first_highest_score [OF some] by blast
qed


lemma foldl_markerStep_empty: "foldl (markerStep Map.empty) st ms = st"
  by (induction ms arbitrary: st) (auto simp: split_paired_all)

lemma countMarkers_empty: "countMarkers Map.empty rule = (0, 0)"
  by (simp add: countMarkers_def foldl_markerStep_empty)

lemma findBestMatch_empty: "findBestMatch rules Map.empty = initialBestMatch"
  by (rule no_candidate_initial) (simp add: filter_empty_conv ruleCandidate_def countMarkers_empty)

lemma ruleStep_untested: "snd (countMarkers mp rule) = 0 \<Longrightarrow> ruleStep mp best rule = best"
  by (simp add: ruleStep_eq ruleCandidate_def)

lemma bestPercentage_untested:
  "bestTotal (findBestMatch rules mp) = 0 \<Longrightarrow> bestPercentage (findBestMatch rules mp) = 0"
  using findBestMatch_cases [of mp rules]
  by (auto simp: initialBestMatch_def ruleBestMatch_def ruleCandidate_def)

lemma matchPercentage_defined:
  "matchPercentage (analyzeSiblingSharing es) \<noteq> None
   \<and> (sibTotalSNPs (analyzeSiblingSharing es) = 0
        \<longrightarrow> matchPercentage (analyzeSiblingSharing es) = Some 0)"
  by (simp add: analyzeSiblingSharing_def jsDivide_def split: prod.splits)

text \<open>
  C9. On the empty sequence all four analyses return zero counts, and the percentage
  fields of the sibling and haplogroup results are 0. The sibling percentage is defined
  for every input (the division is only made under \<open>total > 0\<close>) and is 0 when nothing
  was counted; a rule with no tested marker is skipped before its percentage is
  computed, a tested rule's percentage is defined, and the haplogroup percentage is 0
  whenever the result has zero tested markers.
\<close>

theorem empty_input_zero_reports:
  "analyzeMendelianConsistency []
     = \<lparr>totalSNPs = 0, consistent = 0, inconsistent = 0, inconsistentEntries = []\<rparr>
   \<and> analyzeMitochondrial []
     = \<lparr>mtTotal = 0, mtMatches = 0, mtMismatches = 0, mismatchedEntries = []\<rparr>
   \<and> analyzeSiblingSharing []
     = \<lparr>sibTotalSNPs = 0, sibMatches = 0, matchPercentage = Some 0\<rparr>
   \<and> details (estimateHaplogroups [])
     = \<lparr>matchCount = 0, totalmarkers = 0, percentage = 0, description = []\<rparr>
   \<and> matchPercentage (analyzeSiblingSharing es) \<noteq> None
   \<and> (sibTotalSNPs (analyzeSiblingSharing es) = 0
        \<longrightarrow> matchPercentage (analyzeSiblingSharing es) = Some 0)
   \<and> (snd (countMarkers mp rule) = 0 \<longrightarrow> ruleStep mp best rule = best)
   \<and> (0 < snd (countMarkers mp' rule') \<longrightarrow> rulePercentage mp' rule' \<noteq> None)
   \<and> (totalmarkers (details (estimateHaplogroupsWith rules es)) = 0
        \<longrightarrow> percentage (details (estimateHaplogroupsWith rules es)) = 0)"
proof -
  have a: "analyzeMendelianConsistency []
     = \<lparr>totalSNPs = 0, consistent = 0, inconsistent = 0, inconsistentEntries = []\<rparr>"
    by (simp add: analyzeMendelianConsistency_def autosomal_def)
  have b: "analyzeMitochondrial []
     = \<lparr>mtTotal = 0, mtMatches = 0, mtMismatches = 0, mismatchedEntries = []\<rparr>"
    by (simp add: analyzeMitochondrial_def)
  have c: "analyzeSiblingSharing []
     = \<lparr>sibTotalSNPs = 0, sibMatches = 0, matchPercentage = Some 0\<rparr>"
    by (simp add: analyzeSiblingSharing_def autosomal_def)
  have d: "details (estimateHaplogroups [])
     = \<lparr>matchCount = 0, totalmarkers = 0, percentage = 0, description = []\<rparr>"
    by (simp add: estimateHaplogroups_def estimateHaplogroupsWith_def mtEntries_def
        findBestMatch_empty haplogroupResult_def initialBestMatch_def)
  have e: "snd (countMarkers mp rule) = 0 \<longrightarrow> ruleStep mp best rule = best"
    by (simp add: ruleStep_untested)
  have f: "0 < snd (countMarkers mp' rule') \<longrightarrow> rulePercentage mp' rule' \<noteq> None"
    by (simp add: rulePercentage_tested)
  have g: "totalmarkers (details (estimateHaplogroupsWith rules es)) = 0
        \<longrightarrow> percentage (details (estimateHaplogroupsWith rules es)) = 0"
    by (simp add: estimateHaplogroupsWith_def haplogroupResult_def bestPercentage_untested)
  show ?thesis using a b c d e f g matchPercentage_defined [of es] by blast
qed

theorem empty_input_zero_reports_witness:
  "sibTotalSNPs (analyzeSiblingSharing [entry ''X'' 5 ''A'' ''A'' ''A'' ''AA'']) = 0
   \<and> matchPercentage (analyzeSiblingSharing [entry ''X'' 5 ''A'' ''A'' ''A'' ''AA'']) = Some 0
   \<and> snd (countMarkers Map.empty (mkRule ''M'' [mkMarker 10400 ''T''] ''d'')) = 0
   \<and> 0 < snd (countMarkers (mtEntries [entry ''MT'' 10400 ''C'' ''C'' ''C'' ''C''])
              (mkRule ''M'' [mkMarker 10400 ''T''] ''d''))
   \<and> rulePercentage (mtEntries [entry ''MT'' 10400 ''C'' ''C'' ''C'' ''C''])
        (mkRule ''M'' [mkMarker 10400 ''T''] ''d'') = Some 0
   \<and> totalmarkers (details (estimateHaplogroupsWith mtRules
        [entry ''X'' 5 ''A'' ''A'' ''A'' ''AA''])) = 0
   \<and> percentage (details (estimateHaplogroupsWith mtRules
        [entry ''X'' 5 ''A'' ''A'' ''A'' ''AA''])) = 0"
  using empty_input_zero_reports
    [where es = "[entry ''X'' 5 ''A'' ''A'' ''A'' ''AA'']" and mp = Map.empty
       and rule = "mkRule ''M'' [mkMarker 10400 ''T''] ''d''" and best = initialBestMatch
       and mp' = "mtEntries [entry ''MT'' 10400 ''C'' ''C'' ''C'' ''C'']"
       and rule' = "mkRule ''M'' [mkMarker 10400 ''T''] ''d''" and rules = mtRules]
  by (simp add: haplogroup_eval analyzeSiblingSharing_def autosomal_def autosomalLabel_def)

lemma mtEntries_snoc: "mtEntries (es @ [e]) = mtEntriesStep (mtEntries es) e"
  by (simp add: mtEntries_def)

lemma mtEntries_last_wins:
  "mtEntries es p =
     (case filter (\<lambda>e. chromosome e = ''MT'' \<and> position e = p \<and> preferredAllele e \<noteq> []) es of
        [] \<Rightarrow> None
      | x # xs \<Rightarrow> Some (preferredAllele (last (x # xs))))"
proof (induction es rule: rev_induct)
  case Nil
  then show ?case by (simp add: mtEntries_def)
next
  case (snoc e es)
  then show ?case
    by (auto simp: mtEntries_snoc mtEntriesStep_def Let_def split: list.splits)
qed

text \<open>
  C10. On the records the classifier receives (the parser has replaced the no-call
  token \<open>--\<close> by the empty string, so no mother genotype is \<open>--\<close>), the lookup holds,
  for each position, the preferred genotype (the mother's if non-empty, else son1's) of
  the last record in sequence order that is mitochondrial, has that position and has a
  non-empty preferred genotype. Duplicate records at one position overwrite each
  other and are not counted separately: a rule never has more tested markers than it
  lists, and repeating a record does not change the lookup.
\<close>

theorem lookup_keeps_last_preferred:
  "\<forall>e \<in> set es. mother e \<noteq> ''--'' \<Longrightarrow>
   mtEntries es p =
     (case filter (\<lambda>e. chromosome e = ''MT'' \<and> position e = p \<and> motherIfNonEmpty e \<noteq> []) es of
        [] \<Rightarrow> None
      | x # xs \<Rightarrow> Some (motherIfNonEmpty (last (x # xs))))
   \<and> snd (countMarkers (mtEntries es) rule) \<le> int (length (markers rule))
   \<and> mtEntries (es @ [d, d]) = mtEntries (es @ [d])
   \<and> clean g \<noteq> ''--''"
proof -
  assume parsed: "\<forall>e \<in> set es. mother e \<noteq> ''--''"
  let ?P = "\<lambda>e. chromosome e = ''MT'' \<and> position e = p \<and> preferredAllele e \<noteq> []"
  let ?Q = "\<lambda>e. chromosome e = ''MT'' \<and> position e = p \<and> motherIfNonEmpty e \<noteq> []"
  have same: "\<forall>e \<in> set es. preferredAllele e = motherIfNonEmpty e"
    using parsed by (simp add: preferredAllele_def motherIfNonEmpty_def)
  then have flt: "filter ?P es = filter ?Q es"
    by (intro filter_cong) auto
  have look: "mtEntries es p =
     (case filter ?Q es of [] \<Rightarrow> None | x # xs \<Rightarrow> Some (motherIfNonEmpty (last (x # xs))))"
  proof (cases "filter ?Q es")
    case Nil
    with flt show ?thesis by (simp add: mtEntries_last_wins)
  next
    case (Cons x xs)
    then have "last (x # xs) \<in> set (filter ?Q es)"
      by (metis last_in_set list.distinct(1))
    then have "last (x # xs) \<in> set es" by simp
    with same have "preferredAllele (last (x # xs)) = motherIfNonEmpty (last (x # xs))"
      by blast
    with Cons flt show ?thesis by (simp add: mtEntries_last_wins)
  qed
  have dup: "mtEntries (es @ [d, d]) = mtEntries (es @ [d])"
    by (simp add: mtEntries_def mtEntriesStep_def Let_def)
  have cl: "clean g \<noteq> ''--''"
    by (simp add: clean_def)
  show ?thesis
    using look countMarkers_bounds(3) [of "mtEntries es" rule] dup cl by simp
qed

theorem lookup_keeps_last_preferred_witness:
  "''--'' \<notin> set (map mother [entry ''MT'' 7028 ''C'' ''G'' ''G'' ''C'', entry ''MT'' 7028 ''C'' ''G'' ''G'' ''T'',
                entry ''MT'' 7028 ''C'' [] ''G'' (clean ''--''),
                entry ''1'' 7028 ''C'' ''G'' ''G'' ''A''])
   \<and> mtEntries [entry ''MT'' 7028 ''C'' ''G'' ''G'' ''C'', entry ''MT'' 7028 ''C'' ''G'' ''G'' ''T'',
                entry ''MT'' 7028 ''C'' [] ''G'' (clean ''--''),
                entry ''1'' 7028 ''C'' ''G'' ''G'' ''A'']
       (Coord 7028) = Some ''T''
   \<and> countMarkers (mtEntries
        [entry ''MT'' 7028 ''C'' ''G'' ''G'' ''C'', entry ''MT'' 7028 ''C'' ''G'' ''G'' ''T'',
         entry ''MT'' 7028 ''C'' [] ''G'' (clean ''--''),
         entry ''1'' 7028 ''C'' ''G'' ''G'' ''A''])
        (mkRule ''H'' [mkMarker 7028 ''C'', mkMarker 2706 ''A''] ''d'') = (0, 1)"
proof -
  let ?es = "[entry ''MT'' 7028 ''C'' ''G'' ''G'' ''C'', entry ''MT'' 7028 ''C'' ''G'' ''G'' ''T'',
                entry ''MT'' 7028 ''C'' [] ''G'' (clean ''--''),
                entry ''1'' 7028 ''C'' ''G'' ''G'' ''A'']"
  have parsed: "\<forall>e \<in> set ?es. mother e \<noteq> ''--''"
    by (simp add: entry_def clean_def)
  show ?thesis
    using parsed lookup_keeps_last_preferred
      [OF parsed, of "Coord 7028" "mkRule ''H'' [mkMarker 7028 ''C'', mkMarker 2706 ''A''] ''d''"
         "entry ''MT'' 7028 ''C'' ''G'' ''G'' ''C''" "''--''"]
    by (simp add: haplogroup_eval motherIfNonEmpty_def clean_def)
qed

section \<open>The autosomal filter and \<open>parseInt\<close>\<close>

lemma decimal_digit_iff:
  "isRadixDigit 10 c = (48 \<le> (of_char c :: nat) \<and> (of_char c :: nat) \<le> 57)"
  by (auto simp: isRadixDigit_def digitValue_def Let_def)

lemma decimal_digit_not_special:
  assumes "isRadixDigit 10 c"
  shows "\<not> isWhiteSpace c" "c \<noteq> CHR ''+''" "c \<noteq> CHR ''-''" "c \<noteq> CHR ''x''"
    "c \<noteq> CHR ''X''" "c \<noteq> CHR ''Y''" "c \<noteq> CHR ''M''"
  using assms by (auto simp: decimal_digit_iff isWhiteSpace_def)

lemma hexPrefix_Cons:
  "hexPrefix (d # rest) = (d = CHR ''0'' \<and> (\<exists>r. rest = CHR ''x'' # r \<or> rest = CHR ''X'' # r))"
  by (cases rest) (auto simp: hexPrefix_def)

lemma parseInt_unsigned_start:
  assumes "\<not> isWhiteSpace a" "a \<noteq> CHR ''+''" "a \<noteq> CHR ''-''" "\<not> hexPrefix (a # r)"
  shows "(parseInt (a # r) \<noteq> None) = isRadixDigit 10 a"
  using assms by (simp add: parseInt_def stripSign_def)

lemma unsignedDecimal_retained: "unsignedDecimalLabel c \<Longrightarrow> autosomalLabel c"
proof -
  assume u: "unsignedDecimalLabel c"
  then obtain d rest where c: "c = d # rest" and d: "isRadixDigit 10 d"
    and rest: "list_all (isRadixDigit 10) rest"
    by (cases c) (auto simp: unsignedDecimalLabel_def)
  have "\<not> hexPrefix (d # rest)"
  proof (cases rest)
    case Nil
    then show ?thesis by (simp add: hexPrefix_Cons)
  next
    case (Cons b r)
    with rest have "isRadixDigit 10 b" by simp
    then have "b \<noteq> CHR ''x''" "b \<noteq> CHR ''X''"
      by (rule decimal_digit_not_special(4), rule decimal_digit_not_special(5))
    with Cons show ?thesis by (simp add: hexPrefix_Cons)
  qed
  then have "parseInt c \<noteq> None"
    using parseInt_unsigned_start [of d rest] decimal_digit_not_special(1,2,3) [OF d] d c
    by simp
  moreover have "c \<notin> set [''X'', ''Y'', ''MT'']"
    using c decimal_digit_not_special(5,6,7) [OF d] by auto
  ultimately show ?thesis by (simp add: autosomalLabel_def)
qed

lemma sex_and_mt_excluded:
  "\<not> autosomalLabel ''X''" "\<not> autosomalLabel ''Y''" "\<not> autosomalLabel ''MT''"
  by (simp_all add: autosomalLabel_def)

lemma non_numeric_excluded:
  assumes "c = [] \<or> (\<not> isWhiteSpace (hd c) \<and> hd c \<noteq> CHR ''+'' \<and> hd c \<noteq> CHR ''-''
             \<and> \<not> isRadixDigit 10 (hd c))"
  shows "\<not> autosomalLabel c"
proof (cases c)
  case Nil
  then show ?thesis by (simp add: autosomalLabel_def parseInt_def stripSign_def)
next
  case (Cons a r)
  with assms have a: "\<not> isWhiteSpace a" "a \<noteq> CHR ''+''" "a \<noteq> CHR ''-''" "\<not> isRadixDigit 10 a"
    by simp_all
  have "a \<noteq> CHR ''0''"
    using a(4) by (auto simp: decimal_digit_iff)
  then have "\<not> hexPrefix (a # r)" by (simp add: hexPrefix_Cons)
  then have "parseInt (a # r) = None"
    using parseInt_unsigned_start [of a r] a by simp
  with Cons show ?thesis by (simp add: autosomalLabel_def)
qed

text \<open>
  C2. Both the Mendelian checker and the sibling-sharing estimator are to keep exactly
  the records whose chromosome label is an unsigned decimal integer (the source
  comments the filter as \<open>Autosomal only (1-22)\<close>). The labels that are unsigned
  decimal integers are kept and \<open>X\<close>, \<open>Y\<close> and \<open>MT\<close> are dropped, as the lemmas
  above show; but the filter tests \<open>!isNaN(parseInt(e.chromosome))\<close>, and \<open>parseInt\<close>
  accepts a sign and ignores what follows the leading digits. On the two records below,
  labelled \<open>1abc\<close> and \<open>-5\<close>, neither label is an unsigned decimal integer, and both
  records pass the filter and are counted by both analyses.
\<close>

theorem autosomal_filter_keeps_malformed_labels:
  "\<not> unsignedDecimalLabel ''1abc'' \<and> \<not> unsignedDecimalLabel ''-5''
   \<and> autosomalLabel ''1abc'' \<and> autosomalLabel ''-5''
   \<and> totalSNPs (analyzeMendelianConsistency
        [entry ''1abc'' 10 ''AA'' ''AA'' ''AA'' ''AA'', entry ''-5'' 11 ''AA'' ''AA'' ''AA'' ''AA'']) = 2
   \<and> sibTotalSNPs (analyzeSiblingSharing
        [entry ''1abc'' 10 ''AA'' ''AA'' ''AA'' ''AA'', entry ''-5'' 11 ''AA'' ''AA'' ''AA'' ''AA'']) = 2"
  by (simp add: entry_def mendelianSkipped_def siblingSkipped_def
      analyzeMendelianConsistency_def analyzeSiblingSharing_def autosomal_def
      autosomalLabel_def parseInt_def stripSign_def hexPrefix_def isWhiteSpace_def
      isRadixDigit_def digitValue_def unsignedDecimalLabel_def
      isConsistent_def arrayIncludes_def arrayAt_def)

end
